theory Spec2Isabelle
  imports Complex_Main "HOL-Library.Sublist"
begin

section \<open>JavaScript values\<close>

subsection \<open>Numbers\<close>

text \<open>
  A JavaScript \<^verbatim>\<open>number\<close>: \<^verbatim>\<open>NaN\<close>, the two infinities, or a finite value. Finite values
  are rationals and arithmetic on them is exact: the rounding of IEEE-754 doubles and the
  sign of zero are not modelled (a zero divisor counts as \<open>+0\<close>). Comparisons with
  \<^verbatim>\<open>NaN\<close> are false, as in the language.
\<close>

datatype number = NaN | NegInfinity | Num rat | PosInfinity

text \<open>\<^verbatim>\<open>a < b\<close>\<close>

fun number_lt :: "number \<Rightarrow> number \<Rightarrow> bool" where
  "number_lt NaN b = False"
| "number_lt a NaN = False"
| "number_lt (Num x) (Num y) = (x < y)"
| "number_lt NegInfinity NegInfinity = False"
| "number_lt NegInfinity b = True"
| "number_lt PosInfinity b = False"
| "number_lt (Num x) PosInfinity = True"
| "number_lt (Num x) NegInfinity = False"

text \<open>\<^verbatim>\<open>a <= b\<close>\<close>

fun number_le :: "number \<Rightarrow> number \<Rightarrow> bool" where
  "number_le NaN b = False"
| "number_le a NaN = False"
| "number_le (Num x) (Num y) = (x \<le> y)"
| "number_le NegInfinity b = True"
| "number_le PosInfinity PosInfinity = True"
| "number_le PosInfinity b = False"
| "number_le (Num x) PosInfinity = True"
| "number_le (Num x) NegInfinity = False"

text \<open>\<^verbatim>\<open>a > b\<close> and \<^verbatim>\<open>a >= b\<close>\<close>

definition number_gt :: "number \<Rightarrow> number \<Rightarrow> bool" where
  "number_gt a b = number_lt b a"

definition number_ge :: "number \<Rightarrow> number \<Rightarrow> bool" where
  "number_ge a b = number_le b a"

text \<open>\<^verbatim>\<open>a !== b\<close> on numbers: \<^verbatim>\<open>NaN\<close> differs from everything, itself included.\<close>

definition number_strict_neq :: "number \<Rightarrow> number \<Rightarrow> bool" where
  "number_strict_neq a b \<longleftrightarrow> a = NaN \<or> b = NaN \<or> a \<noteq> b"

text \<open>\<^verbatim>\<open>a - b\<close>\<close>

fun number_sub :: "number \<Rightarrow> number \<Rightarrow> number" where
  "number_sub NaN b = NaN"
| "number_sub a NaN = NaN"
| "number_sub (Num x) (Num y) = Num (x - y)"
| "number_sub PosInfinity PosInfinity = NaN"
| "number_sub NegInfinity NegInfinity = NaN"
| "number_sub PosInfinity b = PosInfinity"
| "number_sub NegInfinity b = NegInfinity"
| "number_sub (Num x) PosInfinity = NegInfinity"
| "number_sub (Num x) NegInfinity = PosInfinity"

text \<open>\<^verbatim>\<open>a / b\<close>: division by zero gives an infinity, or \<^verbatim>\<open>NaN\<close> for \<open>0 / 0\<close>.\<close>

fun number_div :: "number \<Rightarrow> number \<Rightarrow> number" where
  "number_div NaN b = NaN"
| "number_div a NaN = NaN"
| "number_div (Num x) (Num y) =
     (if y = 0 then (if x = 0 then NaN else if 0 < x then PosInfinity else NegInfinity)
      else Num (x / y))"
| "number_div (Num x) b = Num 0"
| "number_div PosInfinity (Num y) = (if y < 0 then NegInfinity else PosInfinity)"
| "number_div NegInfinity (Num y) = (if y < 0 then PosInfinity else NegInfinity)"
| "number_div a b = NaN"

text \<open>Unary minus.\<close>

fun number_neg :: "number \<Rightarrow> number" where
  "number_neg NaN = NaN"
| "number_neg NegInfinity = PosInfinity"
| "number_neg (Num x) = Num (- x)"
| "number_neg PosInfinity = NegInfinity"

text \<open>Truthiness of a number: everything but \<open>0\<close> and \<^verbatim>\<open>NaN\<close>.\<close>

definition number_truthy :: "number \<Rightarrow> bool" where
  "number_truthy n \<longleftrightarrow> n \<noteq> NaN \<and> n \<noteq> Num 0"

text \<open>
  \<^verbatim>\<open>ToIntegerOrInfinity\<close> of the language definition, as an extended integer:
  \<^verbatim>\<open>NaN\<close> becomes 0 and a finite value is truncated towards zero.
\<close>

datatype int_or_infinity = MinusInf | Finite int | PlusInf

fun ToIntegerOrInfinity :: "number \<Rightarrow> int_or_infinity" where
  "ToIntegerOrInfinity NaN = Finite 0"
| "ToIntegerOrInfinity NegInfinity = MinusInf"
| "ToIntegerOrInfinity PosInfinity = PlusInf"
| "ToIntegerOrInfinity (Num x) = Finite (if 0 \<le> x then \<lfloor>x\<rfloor> else \<lceil>x\<rceil>)"

subsection \<open>Strings\<close>

text \<open>
  A string is a list of characters, read as ASCII codes. \<^verbatim>\<open>toLowerCase\<close> maps the
  letters \<^verbatim>\<open>A\<close> to \<^verbatim>\<open>Z\<close> to lower case (bit 5 of the code) and leaves every other
  character as it is; the case mappings of Unicode beyond ASCII are not modelled.
\<close>

fun lower_char :: "char \<Rightarrow> char" where
  "lower_char (Char b0 b1 b2 b3 b4 b5 b6 b7) =
     (if 65 \<le> (of_char (Char b0 b1 b2 b3 b4 b5 b6 b7) :: nat)
        \<and> (of_char (Char b0 b1 b2 b3 b4 b5 b6 b7) :: nat) \<le> 90
      then Char b0 b1 b2 b3 b4 True b6 b7
      else Char b0 b1 b2 b3 b4 b5 b6 b7)"

definition toLowerCase :: "string \<Rightarrow> string" where
  "toLowerCase s = map lower_char s"

text \<open>\<^verbatim>\<open>s.includes(t)\<close>: \<open>t\<close> occurs in \<open>s\<close> as a contiguous run; the empty string always does.\<close>

definition includes_str :: "string \<Rightarrow> string \<Rightarrow> bool" where
  "includes_str s t \<longleftrightarrow> sublist t s"

text \<open>Truthiness of a string: every string but the empty one.\<close>

definition string_truthy :: "string \<Rightarrow> bool" where
  "string_truthy s \<longleftrightarrow> s \<noteq> []"

subsection \<open>\<^verbatim>\<open>parseFloat\<close>\<close>

text \<open>
  \<^verbatim>\<open>parseFloat\<close> drops leading white space and reads the longest prefix of the rest that
  is a decimal literal: an optional sign, then \<^verbatim>\<open>Infinity\<close>, or digits with an optional
  fraction and exponent, or a fraction that starts with the point. Whatever follows the
  literal is ignored; with no such prefix the result is \<^verbatim>\<open>NaN\<close>. The value is the exact
  decimal value (no rounding to a double, no overflow to infinity); white space is the
  ASCII white space.
\<close>

definition is_digit :: "char \<Rightarrow> bool" where
  "is_digit c \<longleftrightarrow> 48 \<le> (of_char c :: nat) \<and> (of_char c :: nat) \<le> 57"

definition is_space :: "char \<Rightarrow> bool" where
  "is_space c \<longleftrightarrow> (of_char c :: nat) \<in> {9, 10, 11, 12, 13, 32}"

definition digits_value :: "string \<Rightarrow> nat" where
  "digits_value ds = foldl (\<lambda>acc c. 10 * acc + ((of_char c :: nat) - 48)) 0 ds"

text \<open>
  The value of the exponent part at the head of a string, 0 when there is none: \<^verbatim>\<open>e\<close> or
  \<^verbatim>\<open>E\<close>, an optional sign, and at least one digit.
\<close>

definition exponent_part :: "string \<Rightarrow> int" where
  "exponent_part s =
     (case s of
        [] \<Rightarrow> 0
      | e # r \<Rightarrow>
          if e = CHR ''e'' \<or> e = CHR ''E'' then
            (case r of
               [] \<Rightarrow> 0
             | sg # r' \<Rightarrow>
                 if sg = CHR ''+'' then int (digits_value (takeWhile is_digit r'))
                 else if sg = CHR ''-'' then - int (digits_value (takeWhile is_digit r'))
                 else int (digits_value (takeWhile is_digit r)))
          else 0)"

text \<open>The digits \<open>ds\<close> read as an integer, times ten to the power \<open>k\<close>.\<close>

definition scaled :: "string \<Rightarrow> int \<Rightarrow> rat" where
  "scaled ds k =
     (if 0 \<le> k then of_nat (digits_value ds) * 10 ^ nat k
      else of_nat (digits_value ds) / 10 ^ nat (- k))"

definition unsigned_literal :: "string \<Rightarrow> number" where
  "unsigned_literal s =
     (if prefix ''Infinity'' s then PosInfinity
      else
        let ip = takeWhile is_digit s; r = dropWhile is_digit s in
        (case r of
           [] \<Rightarrow> if ip = [] then NaN else Num (scaled ip 0)
         | c # r' \<Rightarrow>
             if c = CHR ''.'' then
               (let fp = takeWhile is_digit r'; r'' = dropWhile is_digit r' in
                if ip = [] \<and> fp = [] then NaN
                else Num (scaled (ip @ fp) (exponent_part r'' - int (length fp))))
             else if ip = [] then NaN
             else Num (scaled ip (exponent_part r))))"

definition parseFloat :: "string \<Rightarrow> number" where
  "parseFloat s =
     (case dropWhile is_space s of
        [] \<Rightarrow> NaN
      | c # r \<Rightarrow>
          if c = CHR ''+'' then unsigned_literal r
          else if c = CHR ''-'' then number_neg (unsigned_literal r)
          else unsigned_literal (c # r))"

subsection \<open>Untyped values\<close>

text \<open>
  A value as \<^verbatim>\<open>JSON.parse\<close> produces it, and \<^verbatim>\<open>undefined\<close>, which reading a missing
  property gives. The entries of an object are listed with distinct keys.
\<close>

datatype jsvalue =
    Undefined
  | JNull
  | JBool bool
  | JNumber number
  | JString string
  | JArray "jsvalue list"
  | JObject "(string \<times> jsvalue) list"

fun truthy :: "jsvalue \<Rightarrow> bool" where
  "truthy Undefined = False"
| "truthy JNull = False"
| "truthy (JBool b) = b"
| "truthy (JNumber n) = number_truthy n"
| "truthy (JString s) = string_truthy s"
| "truthy (JArray vs) = True"
| "truthy (JObject kvs) = True"

text \<open>What is thrown: an \<^verbatim>\<open>Error\<close> object with its message, or some other value.\<close>

datatype thrown = Error string | NonError

text \<open>
  Reading a property that no built-in prototype defines (here \<^verbatim>\<open>path\<close> and \<^verbatim>\<open>slug\<close>):
  a \<^verbatim>\<open>TypeError\<close> on \<^verbatim>\<open>null\<close> and \<^verbatim>\<open>undefined\<close>, the entry of an object if it has one,
  and \<^verbatim>\<open>undefined\<close> otherwise. Destructuring \<^verbatim>\<open>const { path } = body\<close> reads the same way.
\<close>

fun get_property :: "jsvalue \<Rightarrow> string \<Rightarrow> thrown + jsvalue" where
  "get_property Undefined k = Inl (Error ''TypeError'')"
| "get_property JNull k = Inl (Error ''TypeError'')"
| "get_property (JObject kvs) k = Inr (case map_of kvs k of None \<Rightarrow> Undefined | Some v \<Rightarrow> v)"
| "get_property v k = Inr Undefined"

text \<open>\<^verbatim>\<open>xs.map(f)\<close> for an \<open>f\<close> that may throw: the first throw ends the whole map.\<close>

fun map_throwing :: "('a \<Rightarrow> thrown + 'b) \<Rightarrow> 'a list \<Rightarrow> thrown + 'b list" where
  "map_throwing f [] = Inr []"
| "map_throwing f (x # xs) =
     (case f x of
        Inl e \<Rightarrow> Inl e
      | Inr y \<Rightarrow> (case map_throwing f xs of Inl e \<Rightarrow> Inl e | Inr ys \<Rightarrow> Inr (y # ys)))"

text \<open>
  \<^verbatim>\<open>xs.slice(0, end)\<close>: a negative end counts from the end of the array, and the
  result stops at the end of the array.
\<close>

definition slice_from_0 :: "number \<Rightarrow> 'a list \<Rightarrow> 'a list" where
  "slice_from_0 end xs =
     (case ToIntegerOrInfinity end of
        MinusInf \<Rightarrow> []
      | PlusInf \<Rightarrow> xs
      | Finite r \<Rightarrow>
          if r < 0 then take (nat (max (int (length xs) + r) 0)) xs
          else take (min (nat r) (length xs)) xs)"

section \<open>Products and the upstream API\<close>

text \<open>
  Modelled from the spec: the declarations \<^verbatim>\<open>Product\<close> and \<^verbatim>\<open>ProductsResponse\<close> of
  \<^verbatim>\<open>@/types/product\<close> are not among the sources. The fields are those the specification
  lists for a product, under the names the pages read them by; \<^verbatim>\<open>id\<close> is \<open>id_field\<close>
  here. Of \<^verbatim>\<open>ProductsResponse\<close> the pages read \<^verbatim>\<open>products\<close> only.
\<close>

record Product =
  id_field :: number
  title :: string
  description :: string
  category :: string
  brand :: string
  price :: number
  discountPercentage :: number
  rating :: number
  stock :: number
  thumbnail :: string
  images :: "string list"

record ProductsResponse =
  products :: "Product list"

text \<open>
  A response of \<^verbatim>\<open>fetch\<close>: its status and what \<^verbatim>\<open>await res.json()\<close> gives, a value of
  the type the caller declares or a throw when the body does not parse. \<^verbatim>\<open>res.ok\<close> is
  true for the statuses 200 to 299. \<^verbatim>\<open>await fetch(url)\<close> itself gives a response or
  throws; the upstream is a function of the URL.
\<close>

record 'a Response =
  status :: nat
  json :: "thrown + 'a"

definition ok :: "'a Response \<Rightarrow> bool" where
  "ok res \<longleftrightarrow> 200 \<le> status res \<and> status res \<le> 299"

type_synonym 'a fetched = "thrown + 'a Response"

type_synonym 'a upstream = "string \<Rightarrow> 'a fetched"

text \<open>\<^verbatim>\<open>console.error(label, error)\<close> appends to the console.\<close>

type_synonym console = "(string \<times> thrown) list"

definition console_error :: "string \<Rightarrow> thrown \<Rightarrow> console \<Rightarrow> console" where
  "console_error label e con = con @ [(label, e)]"

text \<open>
  A fetch outcome that is a failure: the fetch throws (network error), the response is
  not OK, or its body does not parse.
\<close>

definition fetch_failure :: "'a fetched \<Rightarrow> bool" where
  "fetch_failure f = (case f of Inl e \<Rightarrow> True | Inr res \<Rightarrow> \<not> ok res \<or> isl (json res))"

section \<open>The data-fetch functions\<close>

text \<open>
  Each function is a \<^verbatim>\<open>try\<close> block around the fetch and a \<^verbatim>\<open>catch\<close> that logs and
  returns a fallback. The \<^verbatim>\<open>try\<close> block is a definition of its own (suffix \<open>_try\<close>),
  with every throw as \<open>Inl\<close>; the function returns what the whole body returns or throws,
  and the console.
\<close>

text \<open>
  \<^verbatim>\<open>getFeaturedProducts\<close> of the landing page (\<^verbatim>\<open>src/app/page.tsx\<close>; the variant with
  \<^verbatim>\<open>next: { revalidate: 3600 }\<close> differs in the cache options only):
  \<^verbatim>\<open>
    try {
      const res = await fetch("https://dummyjson.com/products?limit=8", ...);
      if (!res.ok) { throw new Error("Failed to fetch products"); }
      const data: ProductsResponse = await res.json();
      return data.products;
    } catch (error) {
      console.error("Error fetching products:", error);
      return [];
    }
  \<close>
\<close>

definition getFeaturedProducts_try :: "ProductsResponse upstream \<Rightarrow> thrown + Product list" where
  "getFeaturedProducts_try fetch =
     (case fetch ''https://dummyjson.com/products?limit=8'' of
        Inl e \<Rightarrow> Inl e
      | Inr res \<Rightarrow>
          if \<not> ok res then Inl (Error ''Failed to fetch products'')
          else (case json res of Inl e \<Rightarrow> Inl e | Inr data \<Rightarrow> Inr (products data)))"

definition getFeaturedProducts ::
  "ProductsResponse upstream \<Rightarrow> console \<Rightarrow> (thrown + Product list) \<times> console" where
  "getFeaturedProducts fetch con =
     (case getFeaturedProducts_try fetch of
        Inr ps \<Rightarrow> (Inr ps, con)
      | Inl error \<Rightarrow> (Inr [], console_error ''Error fetching products:'' error con))"

text \<open>\<^verbatim>\<open>getAllProducts\<close> of the catalog page: the same with \<^verbatim>\<open>limit=100\<close>.\<close>

definition getAllProducts_try :: "ProductsResponse upstream \<Rightarrow> thrown + Product list" where
  "getAllProducts_try fetch =
     (case fetch ''https://dummyjson.com/products?limit=100'' of
        Inl e \<Rightarrow> Inl e
      | Inr res \<Rightarrow>
          if \<not> ok res then Inl (Error ''Failed to fetch products'')
          else (case json res of Inl e \<Rightarrow> Inl e | Inr data \<Rightarrow> Inr (products data)))"

definition getAllProducts ::
  "ProductsResponse upstream \<Rightarrow> console \<Rightarrow> (thrown + Product list) \<times> console" where
  "getAllProducts fetch con =
     (case getAllProducts_try fetch of
        Inr ps \<Rightarrow> (Inr ps, con)
      | Inl error \<Rightarrow> (Inr [], console_error ''Error fetching products:'' error con))"

text \<open>
  \<^verbatim>\<open>getCategories\<close> reads an untyped body:
  \<^verbatim>\<open>
      const data = await res.json();
      if (Array.isArray(data) && data.length > 0) {
        if (typeof data[0] === "string") {
          return data;
        } else if (typeof data[0] === "object" && data[0].slug) {
          return data.map((cat: { slug: string }) => cat.slug);
        }
      }
      return [];
  \<close>
  \<^verbatim>\<open>typeof\<close> is \<^verbatim>\<open>"object"\<close> for objects, arrays and \<^verbatim>\<open>null\<close>.
\<close>

fun typeof_object :: "jsvalue \<Rightarrow> bool" where
  "typeof_object JNull = True"
| "typeof_object (JArray vs) = True"
| "typeof_object (JObject kvs) = True"
| "typeof_object v = False"

fun typeof_string :: "jsvalue \<Rightarrow> bool" where
  "typeof_string (JString s) = True"
| "typeof_string v = False"

definition categories_of :: "jsvalue \<Rightarrow> thrown + jsvalue list" where
  "categories_of data =
     (case data of
        JArray (first # rest) \<Rightarrow>
          if typeof_string first then Inr (first # rest)
          else if typeof_object first then
            (case get_property first ''slug'' of
               Inl e \<Rightarrow> Inl e
             | Inr slug \<Rightarrow>
                 if truthy slug then map_throwing (\<lambda>cat. get_property cat ''slug'') (first # rest)
                 else Inr [])
          else Inr []
      | _ \<Rightarrow> Inr [])"

definition getCategories_try :: "jsvalue upstream \<Rightarrow> thrown + jsvalue list" where
  "getCategories_try fetch =
     (case fetch ''https://dummyjson.com/products/categories'' of
        Inl e \<Rightarrow> Inl e
      | Inr res \<Rightarrow>
          if \<not> ok res then Inl (Error ''Failed to fetch categories'')
          else (case json res of Inl e \<Rightarrow> Inl e | Inr data \<Rightarrow> categories_of data))"

definition getCategories ::
  "jsvalue upstream \<Rightarrow> console \<Rightarrow> (thrown + jsvalue list) \<times> console" where
  "getCategories fetch con =
     (case getCategories_try fetch of
        Inr cs \<Rightarrow> (Inr cs, con)
      | Inl error \<Rightarrow> (Inr [], console_error ''Error fetching categories:'' error con))"

text \<open>
  \<^verbatim>\<open>getProduct(id)\<close> of the product page (\<^verbatim>\<open>products/[id]/page.tsx\<close>, in both
  applications), with \<open>ident\<close> for the parameter \<^verbatim>\<open>id\<close>:
  \<^verbatim>\<open>
    try {
      const res = await fetch(`https://dummyjson.com/products/${id}`, ...);
      if (!res.ok) {
        if (res.status === 404) { return null; }
        throw new Error("Failed to fetch product");
      }
      const product: Product = await res.json();
      return product;
    } catch (error) {
      console.error("Error fetching product:", error);
      return null;
    }
  \<close>
\<close>

definition product_url :: "string \<Rightarrow> string" where
  "product_url ident = ''https://dummyjson.com/products/'' @ ident"

definition getProduct_try :: "Product upstream \<Rightarrow> string \<Rightarrow> thrown + Product option" where
  "getProduct_try fetch ident =
     (case fetch (product_url ident) of
        Inl e \<Rightarrow> Inl e
      | Inr res \<Rightarrow>
          if \<not> ok res then
            (if status res = 404 then Inr None
             else Inl (Error ''Failed to fetch product''))
          else (case json res of Inl e \<Rightarrow> Inl e | Inr product \<Rightarrow> Inr (Some product)))"

definition getProduct ::
  "Product upstream \<Rightarrow> string \<Rightarrow> console \<Rightarrow> (thrown + Product option) \<times> console" where
  "getProduct fetch ident con =
     (case getProduct_try fetch ident of
        Inr p \<Rightarrow> (Inr p, con)
      | Inl error \<Rightarrow> (Inr None, console_error ''Error fetching product:'' error con))"

text \<open>
  \<^verbatim>\<open>getRelatedProducts(category, currentId, limit = 4)\<close>: an absent third argument
  takes the default.
  \<^verbatim>\<open>
      const data = await res.json();
      return data.products
        .filter((p: Product) => p.id !== currentId)
        .slice(0, limit);
  \<close>
\<close>

definition category_url :: "string \<Rightarrow> string" where
  "category_url c = ''https://dummyjson.com/products/category/'' @ c @ ''?limit=10''"

definition getRelatedProducts_try ::
  "ProductsResponse upstream \<Rightarrow> string \<Rightarrow> number \<Rightarrow> number \<Rightarrow> thrown + Product list" where
  "getRelatedProducts_try fetch c currentId limit =
     (case fetch (category_url c) of
        Inl e \<Rightarrow> Inl e
      | Inr res \<Rightarrow>
          if \<not> ok res then Inl (Error ''Failed to fetch related products'')
          else
            (case json res of
               Inl e \<Rightarrow> Inl e
             | Inr data \<Rightarrow>
                 Inr (slice_from_0 limit
                        (filter (\<lambda>p. number_strict_neq (id_field p) currentId) (products data)))))"

definition getRelatedProducts ::
  "ProductsResponse upstream \<Rightarrow> string \<Rightarrow> number \<Rightarrow> number option \<Rightarrow> console
     \<Rightarrow> (thrown + Product list) \<times> console" where
  "getRelatedProducts fetch c currentId limit_arg con =
     (let limit = (case limit_arg of None \<Rightarrow> Num 4 | Some l \<Rightarrow> l) in
      case getRelatedProducts_try fetch c currentId limit of
        Inr ps \<Rightarrow> (Inr ps, con)
      | Inl error \<Rightarrow> (Inr [], console_error ''Error fetching related products:'' error con))"

section \<open>The pages\<close>

text \<open>
  A page returns its view, or the not-found state that \<^verbatim>\<open>notFound()\<close> asks the framework
  for, or throws to the error boundary.
\<close>

datatype 'a rendered = NotFound | Rendered 'a

subsection \<open>Prices\<close>

text \<open>
  What a price expression renders to: nothing (\<^verbatim>\<open>null\<close> and \<^verbatim>\<open>false\<close> render nothing), a
  bare number (a falsy number left of \<^verbatim>\<open>&&\<close> is rendered as it is), or the element with
  \<^verbatim>\<open>$\<close> and \<^verbatim>\<open>x.toFixed(2)\<close>. \<open>Fixed2 x\<close> stands for the text of \<^verbatim>\<open>x.toFixed(2)\<close>; the
  digits are not spelled out.
\<close>

datatype price_node = Blank | Bare number | Fixed2 number

text \<open>The number a node shows, if it shows one.\<close>

fun shown_number :: "price_node \<Rightarrow> number option" where
  "shown_number Blank = None"
| "shown_number (Bare x) = Some x"
| "shown_number (Fixed2 x) = Some x"

text \<open>
  \<^verbatim>\<open>
  const discountedPrice = product.discountPercentage > 0
    ? product.price / (1 - product.discountPercentage / 100)
    : null;
  \<close>
\<close>

definition discountedPrice :: "Product \<Rightarrow> number option" where
  "discountedPrice product =
     (if number_gt (discountPercentage product) (Num 0)
      then Some (number_div (price product)
                   (number_sub (Num 1) (number_div (discountPercentage product) (Num 100))))
      else None)"

text \<open>
  \<^verbatim>\<open>{discountedPrice && (<span ...>${discountedPrice.toFixed(2)}</span>)}\<close>
\<close>

definition originalPrice_node :: "number option \<Rightarrow> price_node" where
  "originalPrice_node dp =
     (case dp of
        None \<Rightarrow> Blank
      | Some d \<Rightarrow> if number_truthy d then Fixed2 d else Bare d)"

text \<open>
  \<^verbatim>\<open>{product.discountPercentage > 0 && (<span ...>You save
  ${(discountedPrice! - product.price).toFixed(2)} ...</span>)}\<close>:
  the \<^verbatim>\<open>!\<close> is erased at run time, and \<^verbatim>\<open>null\<close> would count as 0 in the subtraction.
\<close>

definition savings_node :: "Product \<Rightarrow> number option \<Rightarrow> price_node" where
  "savings_node product dp =
     (if number_gt (discountPercentage product) (Num 0)
      then Fixed2 (number_sub (case dp of None \<Rightarrow> Num 0 | Some d \<Rightarrow> d) (price product))
      else Blank)"

text \<open>
  The product cards of the landing page and of the catalog:
  \<^verbatim>\<open>
  {product.discountPercentage > 0 && (
    <span ...>${(product.price / (1 - product.discountPercentage / 100)).toFixed(2)}</span>)}
  \<close>
\<close>

definition card_originalPrice :: "Product \<Rightarrow> price_node" where
  "card_originalPrice product =
     (if number_gt (discountPercentage product) (Num 0)
      then Fixed2 (number_div (price product)
                     (number_sub (Num 1) (number_div (discountPercentage product) (Num 100))))
      else Blank)"

subsection \<open>The product page\<close>

record detail_view =
  currentPrice :: number
  originalPrice :: price_node
  savings :: price_node
  relatedProducts :: "Product list"

text \<open>
  \<^verbatim>\<open>
  const product = await getProduct(id);
  if (!product) { notFound(); }
  const relatedProducts = await getRelatedProducts(product.category, product.id);
  const discountedPrice = ...
  return ( ... );
  \<close>
\<close>

definition ProductDetailPage ::
  "Product upstream \<Rightarrow> ProductsResponse upstream \<Rightarrow> string \<Rightarrow> console
     \<Rightarrow> (thrown + detail_view rendered) \<times> console" where
  "ProductDetailPage fetch_product fetch_related ident con =
     (case getProduct fetch_product ident con of
        (Inl e, con1) \<Rightarrow> (Inl e, con1)
      | (Inr None, con1) \<Rightarrow> (Inr NotFound, con1)
      | (Inr (Some product), con1) \<Rightarrow>
          (case getRelatedProducts fetch_related (category product) (id_field product) None con1 of
             (Inl e, con2) \<Rightarrow> (Inl e, con2)
           | (Inr related, con2) \<Rightarrow>
               (Inr (Rendered
                  \<lparr>currentPrice = price product,
                   originalPrice = originalPrice_node (discountedPrice product),
                   savings = savings_node product (discountedPrice product),
                   relatedProducts = related\<rparr>),
                con2)))"

subsection \<open>The catalog page\<close>

text \<open>
  The query parameters, each a string or absent; \<^verbatim>\<open>if (category)\<close> holds for a string
  that is present and not empty.
\<close>

record searchParams =
  category_param :: "string option"
  search_param :: "string option"
  minPrice_param :: "string option"
  maxPrice_param :: "string option"

text \<open>
  The four steps of the server-side filtering, in the order of the page:
  \<^verbatim>\<open>
  if (category) {
    filteredProducts = filteredProducts.filter(
      (p) => p.category.toLowerCase() === category.toLowerCase());
  }
  if (search) {
    const searchLower = search.toLowerCase();
    filteredProducts = filteredProducts.filter(
      (p) => p.title.toLowerCase().includes(searchLower) ||
             p.description.toLowerCase().includes(searchLower) ||
             p.brand.toLowerCase().includes(searchLower));
  }
  if (minPrice) {
    filteredProducts = filteredProducts.filter((p) => p.price >= parseFloat(minPrice));
  }
  if (maxPrice) {
    filteredProducts = filteredProducts.filter((p) => p.price <= parseFloat(maxPrice));
  }
  \<close>
\<close>

definition filter_category :: "string option \<Rightarrow> Product list \<Rightarrow> Product list" where
  "filter_category c ps =
     (case c of
        None \<Rightarrow> ps
      | Some cat \<Rightarrow>
          if string_truthy cat
          then filter (\<lambda>p. toLowerCase (category p) = toLowerCase cat) ps
          else ps)"

definition filter_search :: "string option \<Rightarrow> Product list \<Rightarrow> Product list" where
  "filter_search q ps =
     (case q of
        None \<Rightarrow> ps
      | Some search \<Rightarrow>
          if string_truthy search
          then (let searchLower = toLowerCase search in
                filter (\<lambda>p. includes_str (toLowerCase (title p)) searchLower
                           \<or> includes_str (toLowerCase (description p)) searchLower
                           \<or> includes_str (toLowerCase (brand p)) searchLower) ps)
          else ps)"

definition filter_minPrice :: "string option \<Rightarrow> Product list \<Rightarrow> Product list" where
  "filter_minPrice m ps =
     (case m of
        None \<Rightarrow> ps
      | Some minPrice \<Rightarrow>
          if string_truthy minPrice
          then filter (\<lambda>p. number_ge (price p) (parseFloat minPrice)) ps
          else ps)"

definition filter_maxPrice :: "string option \<Rightarrow> Product list \<Rightarrow> Product list" where
  "filter_maxPrice m ps =
     (case m of
        None \<Rightarrow> ps
      | Some maxPrice \<Rightarrow>
          if string_truthy maxPrice
          then filter (\<lambda>p. number_le (price p) (parseFloat maxPrice)) ps
          else ps)"

definition filteredProducts :: "searchParams \<Rightarrow> Product list \<Rightarrow> Product list" where
  "filteredProducts params allProducts =
     filter_maxPrice (maxPrice_param params)
       (filter_minPrice (minPrice_param params)
          (filter_search (search_param params)
             (filter_category (category_param params) allProducts)))"

text \<open>The parameters with one filter kept and the other three absent.\<close>

definition only_category :: "searchParams \<Rightarrow> searchParams" where
  "only_category params =
     \<lparr>category_param = category_param params, search_param = None,
      minPrice_param = None, maxPrice_param = None\<rparr>"

definition only_search :: "searchParams \<Rightarrow> searchParams" where
  "only_search params =
     \<lparr>category_param = None, search_param = search_param params,
      minPrice_param = None, maxPrice_param = None\<rparr>"

definition only_minPrice :: "searchParams \<Rightarrow> searchParams" where
  "only_minPrice params =
     \<lparr>category_param = None, search_param = None,
      minPrice_param = minPrice_param params, maxPrice_param = None\<rparr>"

definition only_maxPrice :: "searchParams \<Rightarrow> searchParams" where
  "only_maxPrice params =
     \<lparr>category_param = None, search_param = None,
      minPrice_param = None, maxPrice_param = maxPrice_param params\<rparr>"

record catalog_view =
  categories :: "jsvalue list"
  found :: "Product list"

text \<open>
  The page awaits \<^verbatim>\<open>getAllProducts()\<close> and \<^verbatim>\<open>getCategories()\<close> together; the console
  is written in this order here.
\<close>

definition ProductsPage ::
  "ProductsResponse upstream \<Rightarrow> jsvalue upstream \<Rightarrow> searchParams \<Rightarrow> console
     \<Rightarrow> (thrown + catalog_view rendered) \<times> console" where
  "ProductsPage fetch_products fetch_categories params con =
     (case getAllProducts fetch_products con of
        (Inl e, con1) \<Rightarrow> (Inl e, con1)
      | (Inr allProducts, con1) \<Rightarrow>
          (case getCategories fetch_categories con1 of
             (Inl e, con2) \<Rightarrow> (Inl e, con2)
           | (Inr cats, con2) \<Rightarrow>
               (Inr (Rendered \<lparr>categories = cats, found = filteredProducts params allProducts\<rparr>),
                con2)))"

subsection \<open>Test data\<close>

text \<open>A product with the given identifier, price and discount percentage.\<close>

definition test_product :: "rat \<Rightarrow> rat \<Rightarrow> rat \<Rightarrow> Product" where
  "test_product i p d =
     \<lparr>id_field = Num i, title = ''Essence Mascara'', description = ''A lash mascara'',
      category = ''beauty'', brand = ''Essence'', price = Num p, discountPercentage = Num d,
      rating = Num 4, stock = Num 5, thumbnail = ''thumb.png'', images = [''1.png'']\<rparr>"

text \<open>An upstream that answers every URL with the same status and parsed body.\<close>

definition answering :: "nat \<Rightarrow> 'a \<Rightarrow> 'a upstream" where
  "answering st body = (\<lambda>url. Inr \<lparr>status = st, json = Inr body\<rparr>)"

section \<open>The server action \<^verbatim>\<open>revalidateBargains\<close> and the calls into \<^verbatim>\<open>next/cache\<close>\<close>

text \<open>
  \<^verbatim>\<open>updateTag\<close>, \<^verbatim>\<open>revalidateTag\<close> and \<^verbatim>\<open>revalidatePath\<close> belong to the framework. A call
  is recorded in a trace, in the order the calls are made; the argument of
  \<^verbatim>\<open>revalidatePath\<close> is whatever value the request carried.
\<close>

datatype 'v cache_call =
    UpdateTag string
  | RevalidateTag string string
  | RevalidatePath 'v

text \<open>
  \<^verbatim>\<open>
  export async function revalidateBargains(expire: boolean) {
    if (expire) { updateTag('bargains'); }
    else { revalidateTag('bargains', 'max'); }
  }
  \<close>
\<close>

definition revalidateBargains :: "bool \<Rightarrow> 'v cache_call list \<Rightarrow> 'v cache_call list" where
  "revalidateBargains expire_flag trace =
     (if expire_flag then trace @ [UpdateTag ''bargains'']
      else trace @ [RevalidateTag ''bargains'' ''max''])"

section \<open>The cache-invalidation endpoint\<close>

text \<open>
  \<^verbatim>\<open>
  export async function POST(request: NextRequest) {
    try {
      const body = await request.json();
      const { path } = body;
      if (!path) {
        return NextResponse.json({ message: 'Path is required' }, { status: 400 });
      }
      revalidatePath(path);
      return NextResponse.json({ revalidated: true, path, now: Date.now() }, { status: 200 });
    } catch (error) {
      return NextResponse.json(
        { message: 'Error revalidating',
          error: error instanceof Error ? error.message : 'Unknown error' },
        { status: 500 });
    }
  }
  \<close>
  The request gives what \<^verbatim>\<open>await request.json()\<close> gives; \<^verbatim>\<open>revalidatePath\<close> is the
  framework's and may throw (\<open>Some\<close>) or return (\<open>None\<close>); \<^verbatim>\<open>Date.now()\<close> is the clock.
\<close>

record NextResponse =
  response_status :: nat
  response_body :: jsvalue

definition POST_try ::
  "thrown + jsvalue \<Rightarrow> (jsvalue \<Rightarrow> thrown option) \<Rightarrow> number \<Rightarrow> jsvalue cache_call list
     \<Rightarrow> (thrown + NextResponse) \<times> jsvalue cache_call list" where
  "POST_try request_json revalidatePath now trace =
     (case request_json of
        Inl e \<Rightarrow> (Inl e, trace)
      | Inr body \<Rightarrow>
          (case get_property body ''path'' of
             Inl e \<Rightarrow> (Inl e, trace)
           | Inr path \<Rightarrow>
               if \<not> truthy path then
                 (Inr \<lparr>response_status = 400,
                       response_body = JObject [(''message'', JString ''Path is required'')]\<rparr>,
                  trace)
               else
                 (case revalidatePath path of
                    Some e \<Rightarrow> (Inl e, trace @ [RevalidatePath path])
                  | None \<Rightarrow>
                      (Inr \<lparr>response_status = 200,
                            response_body =
                              JObject [(''revalidated'', JBool True), (''path'', path),
                                       (''now'', JNumber now)]\<rparr>,
                       trace @ [RevalidatePath path]))))"

definition POST ::
  "thrown + jsvalue \<Rightarrow> (jsvalue \<Rightarrow> thrown option) \<Rightarrow> number \<Rightarrow> jsvalue cache_call list
     \<Rightarrow> NextResponse \<times> jsvalue cache_call list" where
  "POST request_json revalidatePath now trace =
     (case POST_try request_json revalidatePath now trace of
        (Inr response, trace') \<Rightarrow> (response, trace')
      | (Inl error, trace') \<Rightarrow>
          (\<lparr>response_status = 500,
            response_body =
              JObject [(''message'', JString ''Error revalidating''),
                       (''error'',
                        JString (case error of Error m \<Rightarrow> m | NonError \<Rightarrow> ''Unknown error''))]\<rparr>,
           trace'))"

section \<open>Properties of \<^verbatim>\<open>revalidateBargains\<close>\<close>

text \<open>
  Claim C7: for either value of the flag, \<^verbatim>\<open>revalidateBargains\<close> adds exactly one call
  to the trace, on the tag \<^verbatim>\<open>'bargains'\<close>: \<^verbatim>\<open>updateTag('bargains')\<close> when the flag is
  true, \<^verbatim>\<open>revalidateTag('bargains', 'max')\<close> when it is false.
\<close>

theorem C7_revalidateBargains_one_call:
  "revalidateBargains True trace = trace @ [UpdateTag ''bargains'']
   \<and> revalidateBargains False trace = trace @ [RevalidateTag ''bargains'' ''max'']
   \<and> length (revalidateBargains flag trace) = Suc (length trace)"
  by (simp add: revalidateBargains_def)

section \<open>Properties of \<^verbatim>\<open>getRelatedProducts\<close>\<close>




text \<open>The two ways \<^verbatim>\<open>getRelatedProducts\<close> ends: in the \<^verbatim>\<open>catch\<close>, or with the slice.\<close>

lemma getRelatedProducts_cases:
  "(\<exists>e. getRelatedProducts fetch c currentId limit_arg con =
          (Inr [], console_error ''Error fetching related products:'' e con))
   \<or> (\<exists>data res. fetch (category_url c) = Inr res \<and> json res = Inr data \<and>
         getRelatedProducts fetch c currentId limit_arg con =
          (Inr (slice_from_0 (case limit_arg of None \<Rightarrow> Num 4 | Some l \<Rightarrow> l)
                  (filter (\<lambda>p. number_strict_neq (id_field p) currentId) (products data))), con))"
  by (auto simp: getRelatedProducts_def getRelatedProducts_try_def split: sum.splits)




section \<open>Properties of the data-fetch functions\<close>

lemma getFeaturedProducts_failure:
  assumes "fetch_failure (fetch ''https://dummyjson.com/products?limit=8'')"
  shows "\<exists>e. getFeaturedProducts fetch con =
              (Inr [], console_error ''Error fetching products:'' e con)"
  using assms
  by (auto simp: getFeaturedProducts_def getFeaturedProducts_try_def fetch_failure_def
      split: sum.splits)

lemma getAllProducts_failure:
  assumes "fetch_failure (fetch ''https://dummyjson.com/products?limit=100'')"
  shows "\<exists>e. getAllProducts fetch con =
              (Inr [], console_error ''Error fetching products:'' e con)"
  using assms
  by (auto simp: getAllProducts_def getAllProducts_try_def fetch_failure_def
      split: sum.splits)

lemma getCategories_failure:
  assumes "fetch_failure (fetch ''https://dummyjson.com/products/categories'')"
  shows "\<exists>e. getCategories fetch con =
              (Inr [], console_error ''Error fetching categories:'' e con)"
  using assms
  by (auto simp: getCategories_def getCategories_try_def fetch_failure_def
      split: sum.splits)

lemma getFeaturedProducts_returns: "\<exists>ps. fst (getFeaturedProducts fetch con) = Inr ps"
  by (simp add: getFeaturedProducts_def split: sum.splits)

lemma getAllProducts_returns: "\<exists>ps. fst (getAllProducts fetch con) = Inr ps"
  by (simp add: getAllProducts_def split: sum.splits)

lemma getCategories_returns: "\<exists>cs. fst (getCategories fetch con) = Inr cs"
  by (simp add: getCategories_def split: sum.splits)

text \<open>
  Claim C6: when the fetch of \<^verbatim>\<open>getFeaturedProducts\<close>, \<^verbatim>\<open>getAllProducts\<close> or
  \<^verbatim>\<open>getCategories\<close> fails (it throws, the response is not OK, or the body does not
  parse), the function returns the empty list; and whatever the upstream does, each of
  the three returns a list and throws nothing to its caller.
\<close>

theorem C6_fetch_failures_give_empty_list:
  "(fetch_failure (fetch_p ''https://dummyjson.com/products?limit=8'') \<longrightarrow>
      fst (getFeaturedProducts fetch_p con) = Inr [])
   \<and> (fetch_failure (fetch_p ''https://dummyjson.com/products?limit=100'') \<longrightarrow>
      fst (getAllProducts fetch_p con) = Inr [])
   \<and> (fetch_failure (fetch_c ''https://dummyjson.com/products/categories'') \<longrightarrow>
      fst (getCategories fetch_c con) = Inr [])
   \<and> (\<exists>ps. fst (getFeaturedProducts fetch_p con) = Inr ps)
   \<and> (\<exists>ps. fst (getAllProducts fetch_p con) = Inr ps)
   \<and> (\<exists>cs. fst (getCategories fetch_c con) = Inr cs)"
proof -
  have a: "fst (getFeaturedProducts fetch_p con) = Inr []"
    if "fetch_failure (fetch_p ''https://dummyjson.com/products?limit=8'')"
    using getFeaturedProducts_failure [of fetch_p con] that by auto
  have b: "fst (getAllProducts fetch_p con) = Inr []"
    if "fetch_failure (fetch_p ''https://dummyjson.com/products?limit=100'')"
    using getAllProducts_failure [of fetch_p con] that by auto
  have c: "fst (getCategories fetch_c con) = Inr []"
    if "fetch_failure (fetch_c ''https://dummyjson.com/products/categories'')"
    using getCategories_failure [of fetch_c con] that by auto
  show ?thesis
    using a b c getFeaturedProducts_returns [of fetch_p con]
      getAllProducts_returns [of fetch_p con] getCategories_returns [of fetch_c con]
    by blast
qed

text \<open>
  The theorem at three failures: a network error for the products, and a response with
  status 500 whose body does not parse for the categories.
\<close>

theorem C6_fetch_failures_give_empty_list_witness:
  "fetch_failure ((\<lambda>url. Inl (Error ''fetch failed'')) ''https://dummyjson.com/products?limit=8''
                   :: ProductsResponse fetched)
   \<and> fetch_failure ((\<lambda>url. Inr \<lparr>status = 500, json = Inl (Error ''SyntaxError'')\<rparr>)
                      ''https://dummyjson.com/products/categories'' :: jsvalue fetched)
   \<and> fst (getFeaturedProducts (\<lambda>url. Inl (Error ''fetch failed'')) []) = Inr []
   \<and> fst (getAllProducts (\<lambda>url. Inl (Error ''fetch failed'')) []) = Inr []
   \<and> fst (getCategories (\<lambda>url. Inr \<lparr>status = 500, json = Inl (Error ''SyntaxError'')\<rparr>) [])
       = Inr []"
proof -
  have h1: "fetch_failure ((\<lambda>url. Inl (Error ''fetch failed''))
              ''https://dummyjson.com/products?limit=8'' :: ProductsResponse fetched)"
    and h2: "fetch_failure ((\<lambda>url. Inl (Error ''fetch failed''))
              ''https://dummyjson.com/products?limit=100'' :: ProductsResponse fetched)"
    and h3: "fetch_failure ((\<lambda>url. Inr \<lparr>status = 500, json = Inl (Error ''SyntaxError'')\<rparr>)
              ''https://dummyjson.com/products/categories'' :: jsvalue fetched)"
    by (simp_all add: fetch_failure_def ok_def)
  show ?thesis
    using h1 h2 h3
      C6_fetch_failures_give_empty_list
        [of "\<lambda>url. Inl (Error ''fetch failed'')" "[]"
            "\<lambda>url. Inr \<lparr>status = 500, json = Inl (Error ''SyntaxError'')\<rparr>"]
    by blast
qed

text \<open>What \<^verbatim>\<open>getCategories\<close> makes of the two shapes of body the comment names.\<close>

lemma getCategories_strings:
  "fst (getCategories (answering 200 (JArray [JString ''beauty'', JString ''furniture''])) [])
     = Inr [JString ''beauty'', JString ''furniture'']"
  by (simp add: getCategories_def getCategories_try_def categories_of_def answering_def ok_def)

lemma getCategories_objects:
  "fst (getCategories
          (answering 200
             (JArray [JObject [(''slug'', JString ''beauty''), (''name'', JString ''Beauty'')],
                      JObject [(''slug'', JString ''furniture'')]])) [])
     = Inr [JString ''beauty'', JString ''furniture'']"
  by (simp add: getCategories_def getCategories_try_def categories_of_def answering_def ok_def
      string_truthy_def)

section \<open>Properties of \<^verbatim>\<open>getProduct\<close> and the product page\<close>

lemma getProduct_missing:
  assumes "fetch (product_url ident) = Inr res" and "status res = 404"
  shows "getProduct fetch ident con = (Inr None, con)"
  using assms by (simp add: getProduct_def getProduct_try_def ok_def)

text \<open>
  Every failure other than a 404 ends in the \<^verbatim>\<open>catch\<close>: it is logged, and the function
  returns \<^verbatim>\<open>null\<close> all the same, so that the page shows the not-found state for it too.
\<close>

lemma getProduct_other_failure:
  assumes "fetch_failure (fetch (product_url ident))"
    and "\<forall>res. fetch (product_url ident) = Inr res \<longrightarrow> status res \<noteq> 404"
  shows "\<exists>e. getProduct fetch ident con =
              (Inr None, console_error ''Error fetching product:'' e con)"
  using assms
  by (auto simp: getProduct_def getProduct_try_def fetch_failure_def split: sum.splits)

lemma ProductDetailPage_other_failure:
  assumes "fetch_failure (fetch (product_url ident))"
    and "\<forall>res. fetch (product_url ident) = Inr res \<longrightarrow> status res \<noteq> 404"
  shows "fst (ProductDetailPage fetch fetch_related ident con) = Inr NotFound"
  using getProduct_other_failure [of fetch ident con] assms
  by (auto simp: ProductDetailPage_def)

text \<open>
  Claim C3, as stated, has the missing product distinguished from the other fetch
  failures. For the caller and for the user it is not: a response with status 500 makes
  \<^verbatim>\<open>getProduct\<close> return \<^verbatim>\<open>null\<close> and the page render the not-found state, exactly as a
  response with status 404 does.
\<close>

theorem C3_other_failure_same_result_counterexample:
  "fst (getProduct (\<lambda>url. Inr \<lparr>status = 500, json = Inl (Error ''SyntaxError'')\<rparr>) ''1'' [])
     = fst (getProduct (\<lambda>url. Inr \<lparr>status = 404, json = Inl (Error ''SyntaxError'')\<rparr>) ''1'' [])
   \<and> fst (ProductDetailPage (\<lambda>url. Inr \<lparr>status = 500, json = Inl (Error ''SyntaxError'')\<rparr>)
            (\<lambda>url. Inl (Error ''fetch failed'')) ''1'' [])
     = Inr NotFound
   \<and> fst (ProductDetailPage (\<lambda>url. Inr \<lparr>status = 404, json = Inl (Error ''SyntaxError'')\<rparr>)
            (\<lambda>url. Inl (Error ''fetch failed'')) ''1'' [])
     = Inr NotFound"
  by (simp add: ProductDetailPage_def getProduct_def getProduct_try_def ok_def)

text \<open>
  Claim C3, amended: when the upstream answers the request for a product with status 404,
  \<^verbatim>\<open>getProduct\<close> returns \<^verbatim>\<open>null\<close> and the page renders the not-found state; nothing is
  thrown and nothing is written to the console. Every other fetch failure (the fetch
  throws, another status that is not OK, a body that does not parse) gives the same
  \<^verbatim>\<open>null\<close> and the same not-found state, and differs from the missing product only in
  that the error is logged with \<^verbatim>\<open>console.error\<close>.
\<close>

theorem C3_missing_product_not_found:
  assumes "fetch (product_url ident) = Inr res" and "status res = 404"
  shows "getProduct fetch ident con = (Inr None, con)
       \<and> ProductDetailPage fetch fetch_related ident con = (Inr NotFound, con)
       \<and> (\<forall>other. fetch_failure (other (product_url ident))
              \<and> (\<forall>r. other (product_url ident) = Inr r \<longrightarrow> status r \<noteq> 404)
            \<longrightarrow> (\<exists>e. getProduct other ident con =
                       (Inr None, console_error ''Error fetching product:'' e con)
                    \<and> ProductDetailPage other fetch_related ident con =
                       (Inr NotFound, console_error ''Error fetching product:'' e con))
                \<and> fst (getProduct other ident con) = fst (getProduct fetch ident con)
                \<and> fst (ProductDetailPage other fetch_related ident con)
                    = fst (ProductDetailPage fetch fetch_related ident con))"
proof -
  have a: "getProduct fetch ident con = (Inr None, con)"
    using getProduct_missing [of fetch ident res con] assms by simp
  then have b: "ProductDetailPage fetch fetch_related ident con = (Inr NotFound, con)"
    by (simp add: ProductDetailPage_def)
  have c: "(\<exists>e. getProduct other ident con =
                 (Inr None, console_error ''Error fetching product:'' e con)
              \<and> ProductDetailPage other fetch_related ident con =
                 (Inr NotFound, console_error ''Error fetching product:'' e con))
           \<and> fst (getProduct other ident con) = fst (getProduct fetch ident con)
           \<and> fst (ProductDetailPage other fetch_related ident con)
               = fst (ProductDetailPage fetch fetch_related ident con)"
    if f: "fetch_failure (other (product_url ident))"
      and n: "\<forall>r. other (product_url ident) = Inr r \<longrightarrow> status r \<noteq> 404" for other
  proof -
    obtain e where e: "getProduct other ident con =
        (Inr None, console_error ''Error fetching product:'' e con)"
      using getProduct_other_failure [of other ident con] f n by blast
    then have p: "ProductDetailPage other fetch_related ident con =
        (Inr NotFound, console_error ''Error fetching product:'' e con)"
      by (simp add: ProductDetailPage_def)
    have "\<exists>e. getProduct other ident con =
                 (Inr None, console_error ''Error fetching product:'' e con)
              \<and> ProductDetailPage other fetch_related ident con =
                 (Inr NotFound, console_error ''Error fetching product:'' e con)"
      using e p by blast
    moreover have "fst (getProduct other ident con) = fst (getProduct fetch ident con)"
      using a e by simp
    moreover have "fst (ProductDetailPage other fetch_related ident con)
               = fst (ProductDetailPage fetch fetch_related ident con)"
      using b p by simp
    ultimately show ?thesis by blast
  qed
  show ?thesis using a b c by blast
qed

text \<open>
  The theorem at a 404 for the product 9999, with a response of status 500 as the other
  failure: the same \<^verbatim>\<open>null\<close> and the same page, and one line on the console.
\<close>

theorem C3_missing_product_not_found_witness:
  "(\<lambda>url. Inr \<lparr>status = 404, json = Inl (Error ''SyntaxError'')\<rparr> :: Product fetched)
       (product_url ''9999'') = Inr \<lparr>status = 404, json = Inl (Error ''SyntaxError'')\<rparr>
   \<and> status \<lparr>status = 404, json = Inl (Error ''SyntaxError'') :: thrown + Product\<rparr> = 404
   \<and> getProduct (\<lambda>url. Inr \<lparr>status = 404, json = Inl (Error ''SyntaxError'')\<rparr>) ''9999'' []
       = (Inr None, [])
   \<and> ProductDetailPage (\<lambda>url. Inr \<lparr>status = 404, json = Inl (Error ''SyntaxError'')\<rparr>)
        (\<lambda>url. Inl (Error ''fetch failed'')) ''9999'' [] = (Inr NotFound, [])
   \<and> fetch_failure ((\<lambda>url. Inr \<lparr>status = 500, json = Inl (Error ''SyntaxError'')\<rparr>
                       :: Product fetched) (product_url ''9999''))
   \<and> fst (ProductDetailPage (\<lambda>url. Inr \<lparr>status = 500, json = Inl (Error ''SyntaxError'')\<rparr>)
        (\<lambda>url. Inl (Error ''fetch failed'')) ''9999'' []) = Inr NotFound
   \<and> getProduct (\<lambda>url. Inr \<lparr>status = 500, json = Inl (Error ''SyntaxError'')\<rparr>) ''9999'' []
       = (Inr None, [(''Error fetching product:'', Error ''Failed to fetch product'')])"
proof -
  let ?res = "\<lparr>status = 404, json = Inl (Error ''SyntaxError'') :: thrown + Product\<rparr>"
  define missing :: "Product upstream" where "missing = (\<lambda>url. Inr ?res)"
  define other :: "Product upstream"
    where "other = (\<lambda>url. Inr \<lparr>status = 500, json = Inl (Error ''SyntaxError'')\<rparr>)"
  define rel :: "ProductsResponse upstream" where "rel = (\<lambda>url. Inl (Error ''fetch failed''))"
  have h1: "missing (product_url ''9999'') = Inr ?res"
    by (simp add: missing_def)
  have h2: "status ?res = 404" by simp
  have f: "fetch_failure (other (product_url ''9999''))"
    by (simp add: other_def fetch_failure_def ok_def)
  have n: "\<forall>r. other (product_url ''9999'') = Inr r \<longrightarrow> status r \<noteq> 404"
    by (auto simp: other_def)
  have logged: "getProduct other ''9999'' []
      = (Inr None, [(''Error fetching product:'', Error ''Failed to fetch product'')])"
    by (simp add: other_def getProduct_def getProduct_try_def ok_def console_error_def)
  note inst = C3_missing_product_not_found [of missing "''9999''" ?res "[]" rel, OF h1 h2]
  have g: "getProduct missing ''9999'' [] = (Inr None, [])"
    using inst by (elim conjE)
  have p: "ProductDetailPage missing rel ''9999'' [] = (Inr NotFound, [])"
    using inst by (elim conjE)
  have "fetch_failure (other (product_url ''9999''))
          \<and> (\<forall>r. other (product_url ''9999'') = Inr r \<longrightarrow> status r \<noteq> 404)
        \<longrightarrow> (\<exists>e. getProduct other ''9999'' [] =
                   (Inr None, console_error ''Error fetching product:'' e [])
                \<and> ProductDetailPage other rel ''9999'' [] =
                   (Inr NotFound, console_error ''Error fetching product:'' e []))
            \<and> fst (getProduct other ''9999'' []) = fst (getProduct missing ''9999'' [])
            \<and> fst (ProductDetailPage other rel ''9999'' [])
                = fst (ProductDetailPage missing rel ''9999'' [])"
    using inst by (elim conjE allE [of _ other])
  then have "fst (ProductDetailPage other rel ''9999'' [])
                = fst (ProductDetailPage missing rel ''9999'' [])"
    using f n by simp
  then have q: "fst (ProductDetailPage other rel ''9999'' []) = Inr NotFound"
    using p by simp
  show ?thesis
    using h1 h2 f g p q logged
    unfolding missing_def other_def rel_def by simp
qed

section \<open>Properties of the displayed prices\<close>

text \<open>The page of a product that the upstream delivers: its view carries the two price nodes.\<close>

lemma ProductDetailPage_found:
  assumes "fetch (product_url ident) = Inr res" and "ok res" and "json res = Inr p"
  shows "\<exists>related con'. ProductDetailPage fetch fetch_related ident con =
           (Inr (Rendered
              \<lparr>currentPrice = price p,
               originalPrice = originalPrice_node (discountedPrice p),
               savings = savings_node p (discountedPrice p),
               relatedProducts = related\<rparr>), con')"
proof -
  have g: "getProduct fetch ident con = (Inr (Some p), con)"
    using assms by (simp add: getProduct_def getProduct_try_def)
  obtain r con' where r: "getRelatedProducts fetch_related (category p) (id_field p) None con
      = (Inr r, con')"
    using getRelatedProducts_cases [of fetch_related "category p" "id_field p" None con]
    by auto
  show ?thesis
    using g r by (simp add: ProductDetailPage_def)
qed

lemma shown_originalPrice_node:
  "shown_number (originalPrice_node dp) = dp"
  by (simp add: originalPrice_node_def split: option.splits)

text \<open>
  Claim C4: for a product with price \<open>P\<close> and discount percentage \<open>D > 0\<close> that the upstream
  delivers, the product page shows \<open>P / (1 - D / 100)\<close> as the original price and that
  value minus \<open>P\<close> as the savings, and the product cards show the same original price;
  for \<open>D = 0\<close> the page and the cards show no original price (and no savings).
\<close>

theorem C4_discount_display:
  assumes "fetch (product_url ident) = Inr res" and "ok res" and "json res = Inr p"
  shows "\<exists>v. fst (ProductDetailPage fetch fetch_related ident con) = Inr (Rendered v)
     \<and> (number_gt (discountPercentage p) (Num 0) \<longrightarrow>
          shown_number (originalPrice v)
            = Some (number_div (price p)
                      (number_sub (Num 1) (number_div (discountPercentage p) (Num 100))))
        \<and> shown_number (savings v)
            = Some (number_sub
                      (number_div (price p)
                         (number_sub (Num 1) (number_div (discountPercentage p) (Num 100))))
                      (price p))
        \<and> card_originalPrice p
            = Fixed2 (number_div (price p)
                        (number_sub (Num 1) (number_div (discountPercentage p) (Num 100)))))
     \<and> (discountPercentage p = Num 0 \<longrightarrow>
          originalPrice v = Blank \<and> savings v = Blank \<and> card_originalPrice p = Blank)"
proof -
  obtain related con' where page: "ProductDetailPage fetch fetch_related ident con =
           (Inr (Rendered
              \<lparr>currentPrice = price p,
               originalPrice = originalPrice_node (discountedPrice p),
               savings = savings_node p (discountedPrice p),
               relatedProducts = related\<rparr>), con')"
    using ProductDetailPage_found [of fetch ident res p fetch_related con] assms by blast
  let ?v = "\<lparr>currentPrice = price p,
               originalPrice = originalPrice_node (discountedPrice p),
               savings = savings_node p (discountedPrice p),
               relatedProducts = related\<rparr>"
  have pos: "shown_number (originalPrice ?v)
            = Some (number_div (price p)
                      (number_sub (Num 1) (number_div (discountPercentage p) (Num 100))))
        \<and> shown_number (savings ?v)
            = Some (number_sub
                      (number_div (price p)
                         (number_sub (Num 1) (number_div (discountPercentage p) (Num 100))))
                      (price p))
        \<and> card_originalPrice p
            = Fixed2 (number_div (price p)
                        (number_sub (Num 1) (number_div (discountPercentage p) (Num 100))))"
    if "number_gt (discountPercentage p) (Num 0)"
    using that
    by (simp add: shown_originalPrice_node discountedPrice_def savings_node_def
        card_originalPrice_def)
  have zero: "originalPrice ?v = Blank \<and> savings ?v = Blank \<and> card_originalPrice p = Blank"
    if "discountPercentage p = Num 0"
    using that
    by (simp add: originalPrice_node_def discountedPrice_def savings_node_def
        card_originalPrice_def number_gt_def)
  have "fst (ProductDetailPage fetch fetch_related ident con) = Inr (Rendered ?v)"
    using page by simp
  with pos zero show ?thesis by blast
qed

text \<open>
  The theorem at a product with price 80 and a discount of 20 percent: the original price
  shown is 100 and the savings are 20.
\<close>

theorem C4_discount_display_witness:
  "answering 200 (test_product 1 80 20) (product_url ''1'')
       = Inr \<lparr>status = 200, json = Inr (test_product 1 80 20)\<rparr>
   \<and> ok \<lparr>status = 200, json = Inr (test_product 1 80 20) :: thrown + Product\<rparr>
   \<and> number_gt (discountPercentage (test_product 1 80 20)) (Num 0)
   \<and> (\<exists>v. fst (ProductDetailPage (answering 200 (test_product 1 80 20))
                  (\<lambda>url. Inl (Error ''fetch failed'')) ''1'' []) = Inr (Rendered v)
          \<and> shown_number (originalPrice v) = Some (Num 100)
          \<and> shown_number (savings v) = Some (Num 20))
   \<and> card_originalPrice (test_product 1 80 20) = Fixed2 (Num 100)"
proof -
  let ?p = "test_product 1 80 20"
  let ?res = "\<lparr>status = 200, json = Inr ?p :: thrown + Product\<rparr>"
  have h1: "answering 200 ?p (product_url ''1'') = Inr ?res"
    by (simp add: answering_def)
  have h2: "ok ?res" by (simp add: ok_def)
  have h3: "json ?res = Inr ?p" by simp
  have d: "number_gt (discountPercentage ?p) (Num 0)"
    by (simp add: test_product_def number_gt_def)
  have v: "number_div (price ?p)
             (number_sub (Num 1) (number_div (discountPercentage ?p) (Num 100))) = Num 100"
    by (simp add: test_product_def)
  have s: "number_sub (Num 100) (price ?p) = Num 20"
    by (simp add: test_product_def)
  from C4_discount_display [of "answering 200 ?p" "''1''" ?res ?p
      "\<lambda>url. Inl (Error ''fetch failed'')" "[]", OF h1 h2 h3]
  have "\<exists>v. fst (ProductDetailPage (answering 200 ?p)
                  (\<lambda>url. Inl (Error ''fetch failed'')) ''1'' []) = Inr (Rendered v)
          \<and> shown_number (originalPrice v) = Some (Num 100)
          \<and> shown_number (savings v) = Some (Num 20)"
    and "card_originalPrice ?p = Fixed2 (Num 100)"
    using d v s by auto
  with h1 h2 d show ?thesis by blast
qed

text \<open>
  Two edges of the product page. A product with price 0 and a discount has the original
  price 0, which is falsy: the page then renders the bare number instead of the formatted
  element. A discount of 100 percent divides by zero and shows infinity.
\<close>

lemma originalPrice_node_zero_price:
  "originalPrice_node (discountedPrice (test_product 1 0 20)) = Bare (Num 0)"
  by (simp add: originalPrice_node_def discountedPrice_def test_product_def number_gt_def
      number_truthy_def)

lemma originalPrice_node_full_discount:
  "originalPrice_node (discountedPrice (test_product 1 80 100)) = Fixed2 PosInfinity"
  by (simp add: originalPrice_node_def discountedPrice_def test_product_def number_gt_def
      number_truthy_def)

section \<open>Properties of the cache-invalidation endpoint\<close>

text \<open>
  Claim C8, as stated, answers 400 when the body lacks a path and otherwise calls
  \<^verbatim>\<open>revalidatePath\<close> and answers 200. The handler tests \<^verbatim>\<open>!path\<close>: the body
  \<^verbatim>\<open>{"path": ""}\<close> has a path, and the answer is 400 with no call. And the body \<^verbatim>\<open>null\<close>
  lacks a path, but reading \<^verbatim>\<open>path\<close> from it throws, and the answer is 500.
\<close>

theorem C8_empty_path_counterexample:
  "map_of [(''path'', JString [])] ''path'' = Some (JString [])
   \<and> POST (Inr (JObject [(''path'', JString [])])) (\<lambda>path. None) (Num 1700000000000) []
     = (\<lparr>response_status = 400,
         response_body = JObject [(''message'', JString ''Path is required'')]\<rparr>, [])
   \<and> response_status (fst (POST (Inr JNull) (\<lambda>path. None) (Num 1700000000000) [])) = 500"
  by (simp add: POST_def POST_try_def string_truthy_def)

text \<open>
  Claim C8, amended. For every request to \<^verbatim>\<open>POST\<close>: if the body parses to a value other
  than \<^verbatim>\<open>null\<close> whose \<^verbatim>\<open>path\<close> is missing or falsy (\<^verbatim>\<open>undefined\<close>, \<^verbatim>\<open>null\<close>, \<^verbatim>\<open>false\<close>,
  0, the empty string), the response has status 400 and the message
  \<^verbatim>\<open>'Path is required'\<close>, and \<^verbatim>\<open>revalidatePath\<close> is not called; if the path is truthy,
  \<^verbatim>\<open>revalidatePath\<close> is called once, on that path, and when it returns the response has
  status 200, \<^verbatim>\<open>revalidated: true\<close> and the same path; if the body does not parse, the
  body is \<^verbatim>\<open>null\<close>, or \<^verbatim>\<open>revalidatePath\<close> throws, the response has status 500 with the
  message \<^verbatim>\<open>'Error revalidating'\<close> and the message of the error (\<^verbatim>\<open>'Unknown error'\<close> for a
  thrown value that is not an \<^verbatim>\<open>Error\<close>).
\<close>

theorem C8_POST_responses:
  "(\<forall>kvs. request_json = Inr (JObject kvs)
        \<and> (map_of kvs ''path'' = None \<or> (\<exists>v. map_of kvs ''path'' = Some v \<and> \<not> truthy v)) \<longrightarrow>
      POST request_json revalidatePath now trace =
        (\<lparr>response_status = 400,
          response_body = JObject [(''message'', JString ''Path is required'')]\<rparr>, trace))
   \<and> (\<forall>body. request_json = Inr body \<and> body \<noteq> JNull \<and> body \<noteq> Undefined
        \<and> (\<forall>kvs. body \<noteq> JObject kvs) \<longrightarrow>
      POST request_json revalidatePath now trace =
        (\<lparr>response_status = 400,
          response_body = JObject [(''message'', JString ''Path is required'')]\<rparr>, trace))
   \<and> (\<forall>kvs path. request_json = Inr (JObject kvs) \<and> map_of kvs ''path'' = Some path
        \<and> truthy path \<and> revalidatePath path = None \<longrightarrow>
      POST request_json revalidatePath now trace =
        (\<lparr>response_status = 200,
          response_body = JObject [(''revalidated'', JBool True), (''path'', path),
                                   (''now'', JNumber now)]\<rparr>,
         trace @ [RevalidatePath path]))
   \<and> (\<forall>kvs path e. request_json = Inr (JObject kvs) \<and> map_of kvs ''path'' = Some path
        \<and> truthy path \<and> revalidatePath path = Some e \<longrightarrow>
      POST request_json revalidatePath now trace =
        (\<lparr>response_status = 500,
          response_body =
            JObject [(''message'', JString ''Error revalidating''),
                     (''error'',
                      JString (case e of Error m \<Rightarrow> m | NonError \<Rightarrow> ''Unknown error''))]\<rparr>,
         trace @ [RevalidatePath path]))
   \<and> (\<forall>e. request_json = Inl e \<longrightarrow>
      POST request_json revalidatePath now trace =
        (\<lparr>response_status = 500,
          response_body =
            JObject [(''message'', JString ''Error revalidating''),
                     (''error'',
                      JString (case e of Error m \<Rightarrow> m | NonError \<Rightarrow> ''Unknown error''))]\<rparr>,
         trace))
   \<and> (request_json = Inr JNull \<longrightarrow>
      (\<exists>m. POST request_json revalidatePath now trace =
        (\<lparr>response_status = 500,
          response_body = JObject [(''message'', JString ''Error revalidating''),
                                   (''error'', JString m)]\<rparr>,
         trace)))"
proof -
  have a: "POST request_json revalidatePath now trace =
        (\<lparr>response_status = 400,
          response_body = JObject [(''message'', JString ''Path is required'')]\<rparr>, trace)"
    if "request_json = Inr (JObject kvs)"
      "map_of kvs ''path'' = None \<or> (\<exists>v. map_of kvs ''path'' = Some v \<and> \<not> truthy v)"
    for kvs
    using that by (auto simp: POST_def POST_try_def)
  have b: "POST request_json revalidatePath now trace =
        (\<lparr>response_status = 400,
          response_body = JObject [(''message'', JString ''Path is required'')]\<rparr>, trace)"
    if "request_json = Inr body" "body \<noteq> JNull" "body \<noteq> Undefined" "\<forall>kvs. body \<noteq> JObject kvs"
    for body
    using that by (cases body) (simp_all add: POST_def POST_try_def)
  have c: "POST request_json revalidatePath now trace =
        (\<lparr>response_status = 200,
          response_body = JObject [(''revalidated'', JBool True), (''path'', path),
                                   (''now'', JNumber now)]\<rparr>,
         trace @ [RevalidatePath path])"
    if "request_json = Inr (JObject kvs)" "map_of kvs ''path'' = Some path" "truthy path"
      "revalidatePath path = None"
    for kvs path
    using that by (simp add: POST_def POST_try_def)
  have d: "POST request_json revalidatePath now trace =
        (\<lparr>response_status = 500,
          response_body =
            JObject [(''message'', JString ''Error revalidating''),
                     (''error'',
                      JString (case e of Error m \<Rightarrow> m | NonError \<Rightarrow> ''Unknown error''))]\<rparr>,
         trace @ [RevalidatePath path])"
    if "request_json = Inr (JObject kvs)" "map_of kvs ''path'' = Some path" "truthy path"
      "revalidatePath path = Some e"
    for kvs path e
    using that by (simp add: POST_def POST_try_def)
  have e: "POST request_json revalidatePath now trace =
        (\<lparr>response_status = 500,
          response_body =
            JObject [(''message'', JString ''Error revalidating''),
                     (''error'',
                      JString (case e of Error m \<Rightarrow> m | NonError \<Rightarrow> ''Unknown error''))]\<rparr>,
         trace)"
    if "request_json = Inl e" for e
    using that by (simp add: POST_def POST_try_def)
  have f: "\<exists>m. POST request_json revalidatePath now trace =
        (\<lparr>response_status = 500,
          response_body = JObject [(''message'', JString ''Error revalidating''),
                                   (''error'', JString m)]\<rparr>,
         trace)"
    if "request_json = Inr JNull"
    using that by (simp add: POST_def POST_try_def)
  show ?thesis
    using a b c d e f by blast
qed

text \<open>
  The theorem at five requests: the body \<^verbatim>\<open>{"path": "/bargains"}\<close> that the button sends,
  with \<^verbatim>\<open>revalidatePath\<close> returning and throwing; the bodies \<^verbatim>\<open>{}\<close> and \<^verbatim>\<open>null\<close>; and a
  body that does not parse.
\<close>

theorem C8_POST_responses_witness:
  "POST (Inr (JObject [(''path'', JString ''/bargains'')])) (\<lambda>path. None) (Num 1700000000000) []
     = (\<lparr>response_status = 200,
         response_body = JObject [(''revalidated'', JBool True), (''path'', JString ''/bargains''),
                                  (''now'', JNumber (Num 1700000000000))]\<rparr>,
        [RevalidatePath (JString ''/bargains'')])
   \<and> POST (Inr (JObject [(''path'', JString ''/bargains'')])) (\<lambda>path. Some (Error ''Invariant''))
        (Num 1700000000000) []
     = (\<lparr>response_status = 500,
         response_body = JObject [(''message'', JString ''Error revalidating''),
                                  (''error'', JString ''Invariant'')]\<rparr>,
        [RevalidatePath (JString ''/bargains'')])
   \<and> POST (Inr (JObject [])) (\<lambda>path. None) (Num 1700000000000) []
     = (\<lparr>response_status = 400,
         response_body = JObject [(''message'', JString ''Path is required'')]\<rparr>, [])
   \<and> response_status (fst (POST (Inr JNull) (\<lambda>path. None) (Num 1700000000000) [])) = 500
   \<and> POST (Inl (Error ''Unexpected end of JSON input'')) (\<lambda>path. None) (Num 1700000000000) []
     = (\<lparr>response_status = 500,
         response_body = JObject [(''message'', JString ''Error revalidating''),
                                  (''error'', JString ''Unexpected end of JSON input'')]\<rparr>, [])"
proof -
  let ?rp = "\<lambda>path :: jsvalue. None :: thrown option"
  let ?throwing = "\<lambda>path :: jsvalue. Some (Error ''Invariant'')"
  let ?now = "Num 1700000000000"
  let ?kvs = "[(''path'', JString ''/bargains'')]"
  have path: "map_of ?kvs ''path'' = Some (JString ''/bargains'')"
    "truthy (JString ''/bargains'')"
    by (simp_all add: string_truthy_def)
  have missing: "map_of ([] :: (string \<times> jsvalue) list) ''path'' = None"
    by simp
  have r200: "POST (Inr (JObject ?kvs)) ?rp ?now []
     = (\<lparr>response_status = 200,
         response_body = JObject [(''revalidated'', JBool True), (''path'', JString ''/bargains''),
                                  (''now'', JNumber ?now)]\<rparr>,
        [] @ [RevalidatePath (JString ''/bargains'')])"
    using C8_POST_responses [of "Inr (JObject ?kvs)" ?rp ?now "[]"] path by blast
  have r500t: "POST (Inr (JObject ?kvs)) ?throwing ?now []
     = (\<lparr>response_status = 500,
         response_body =
           JObject [(''message'', JString ''Error revalidating''),
                    (''error'',
                     JString (case Error ''Invariant'' of
                                Error m \<Rightarrow> m | NonError \<Rightarrow> ''Unknown error''))]\<rparr>,
        [] @ [RevalidatePath (JString ''/bargains'')])"
    using C8_POST_responses [of "Inr (JObject ?kvs)" ?throwing ?now "[]"] path by blast
  have r400: "POST (Inr (JObject [])) ?rp ?now []
     = (\<lparr>response_status = 400,
         response_body = JObject [(''message'', JString ''Path is required'')]\<rparr>, [])"
    using C8_POST_responses [of "Inr (JObject [])" ?rp ?now "[]"] missing by blast
  have "\<exists>m. POST (Inr JNull) ?rp ?now []
     = (\<lparr>response_status = 500,
         response_body = JObject [(''message'', JString ''Error revalidating''),
                                  (''error'', JString m)]\<rparr>, [])"
    using C8_POST_responses [of "Inr JNull" ?rp ?now "[]"] by blast
  then have rnull: "response_status (fst (POST (Inr JNull) ?rp ?now [])) = 500"
    by auto
  have r500: "POST (Inl (Error ''Unexpected end of JSON input'')) ?rp ?now []
     = (\<lparr>response_status = 500,
         response_body =
           JObject [(''message'', JString ''Error revalidating''),
                    (''error'',
                     JString (case Error ''Unexpected end of JSON input'' of
                                Error m \<Rightarrow> m | NonError \<Rightarrow> ''Unknown error''))]\<rparr>, [])"
    using C8_POST_responses [of "Inl (Error ''Unexpected end of JSON input'')" ?rp ?now "[]"]
    by blast
  show ?thesis
    using r200 r500t r400 rnull r500 by simp
qed

text \<open>Every answer of the handler has one of the three statuses.\<close>

lemma POST_status:
  "response_status (fst (POST request_json revalidatePath now trace)) \<in> {200, 400, 500}"
  by (simp add: POST_def POST_try_def split: sum.splits option.splits)

section \<open>Properties of the catalog filters\<close>

text \<open>Each step keeps the products that pass some test, whatever the list.\<close>

lemma filter_category_is_filter: "\<exists>P. \<forall>ps. filter_category c ps = filter P ps"
proof (cases "\<exists>cat. c = Some cat \<and> string_truthy cat")
  case True
  then show ?thesis by (auto simp: filter_category_def)
next
  case False
  then have "\<forall>ps. filter_category c ps = filter (\<lambda>p. True) ps"
    by (auto simp: filter_category_def split: option.splits)
  then show ?thesis by blast
qed

lemma filter_search_is_filter: "\<exists>P. \<forall>ps. filter_search q ps = filter P ps"
proof (cases "\<exists>search. q = Some search \<and> string_truthy search")
  case True
  then show ?thesis by (auto simp: filter_search_def Let_def)
next
  case False
  then have "\<forall>ps. filter_search q ps = filter (\<lambda>p. True) ps"
    by (auto simp: filter_search_def split: option.splits)
  then show ?thesis by blast
qed

lemma filter_minPrice_is_filter: "\<exists>P. \<forall>ps. filter_minPrice m ps = filter P ps"
proof (cases "\<exists>s. m = Some s \<and> string_truthy s")
  case True
  then show ?thesis by (auto simp: filter_minPrice_def)
next
  case False
  then have "\<forall>ps. filter_minPrice m ps = filter (\<lambda>p. True) ps"
    by (auto simp: filter_minPrice_def split: option.splits)
  then show ?thesis by blast
qed

lemma filter_maxPrice_is_filter: "\<exists>P. \<forall>ps. filter_maxPrice m ps = filter P ps"
proof (cases "\<exists>s. m = Some s \<and> string_truthy s")
  case True
  then show ?thesis by (auto simp: filter_maxPrice_def)
next
  case False
  then have "\<forall>ps. filter_maxPrice m ps = filter (\<lambda>p. True) ps"
    by (auto simp: filter_maxPrice_def split: option.splits)
  then show ?thesis by blast
qed

text \<open>Four filters in sequence keep what each of them keeps of the whole list.\<close>

lemma filters_in_sequence:
  assumes "\<forall>ps. f1 ps = filter P1 ps" and "\<forall>ps. f2 ps = filter P2 ps"
    and "\<forall>ps. f3 ps = filter P3 ps" and "\<forall>ps. f4 ps = filter P4 ps"
  shows "f4 (f3 (f2 (f1 xs)))
       = filter (\<lambda>p. p \<in> set (f1 xs) \<and> p \<in> set (f2 xs) \<and> p \<in> set (f3 xs) \<and> p \<in> set (f4 xs)) xs"
proof -
  have "f4 (f3 (f2 (f1 xs))) = filter (\<lambda>p. P1 p \<and> P2 p \<and> P3 p \<and> P4 p) xs"
    using assms by (simp add: conj_commute conj_left_commute)
  also have "\<dots> = filter (\<lambda>p. p \<in> set (f1 xs) \<and> p \<in> set (f2 xs)
                              \<and> p \<in> set (f3 xs) \<and> p \<in> set (f4 xs)) xs"
    using assms by (intro filter_cong) auto
  finally show ?thesis .
qed

text \<open>With one parameter kept, the page applies that one filter to the whole list.\<close>

lemma filteredProducts_only:
  "filteredProducts (only_category params) xs = filter_category (category_param params) xs"
  "filteredProducts (only_search params) xs = filter_search (search_param params) xs"
  "filteredProducts (only_minPrice params) xs = filter_minPrice (minPrice_param params) xs"
  "filteredProducts (only_maxPrice params) xs = filter_maxPrice (maxPrice_param params) xs"
  by (simp_all add: filteredProducts_def only_category_def only_search_def only_minPrice_def
      only_maxPrice_def filter_category_def filter_search_def filter_minPrice_def
      filter_maxPrice_def)

text \<open>
  Claim C2: for every fetched list and every combination of \<^verbatim>\<open>category\<close>, \<^verbatim>\<open>search\<close>,
  \<^verbatim>\<open>minPrice\<close> and \<^verbatim>\<open>maxPrice\<close>, the list the page computes by applying the provided filters
  in sequence consists of the products of the fetched list, in their order, that are in
  the result of each filter applied alone to the full list; as sets, it is the
  intersection of the four individual results.
\<close>

theorem C2_filters_compose_to_intersection:
  "filteredProducts params allProducts =
     filter (\<lambda>p. p \<in> set (filteredProducts (only_category params) allProducts)
                \<and> p \<in> set (filteredProducts (only_search params) allProducts)
                \<and> p \<in> set (filteredProducts (only_minPrice params) allProducts)
                \<and> p \<in> set (filteredProducts (only_maxPrice params) allProducts))
       allProducts
   \<and> set (filteredProducts params allProducts) =
       set (filteredProducts (only_category params) allProducts)
       \<inter> set (filteredProducts (only_search params) allProducts)
       \<inter> set (filteredProducts (only_minPrice params) allProducts)
       \<inter> set (filteredProducts (only_maxPrice params) allProducts)"
proof -
  obtain P1 where p1: "\<forall>ps. filter_category (category_param params) ps = filter P1 ps"
    using filter_category_is_filter by blast
  obtain P2 where p2: "\<forall>ps. filter_search (search_param params) ps = filter P2 ps"
    using filter_search_is_filter by blast
  obtain P3 where p3: "\<forall>ps. filter_minPrice (minPrice_param params) ps = filter P3 ps"
    using filter_minPrice_is_filter by blast
  obtain P4 where p4: "\<forall>ps. filter_maxPrice (maxPrice_param params) ps = filter P4 ps"
    using filter_maxPrice_is_filter by blast
  have seq: "filteredProducts params allProducts =
     filter (\<lambda>p. p \<in> set (filteredProducts (only_category params) allProducts)
                \<and> p \<in> set (filteredProducts (only_search params) allProducts)
                \<and> p \<in> set (filteredProducts (only_minPrice params) allProducts)
                \<and> p \<in> set (filteredProducts (only_maxPrice params) allProducts))
       allProducts"
    unfolding filteredProducts_only
    unfolding filteredProducts_def
    by (rule filters_in_sequence [OF p1 p2 p3 p4])
  have sub: "set (filteredProducts (only_category params) allProducts) \<subseteq> set allProducts"
    unfolding filteredProducts_only using p1 by simp
  have "set (filteredProducts params allProducts) =
       set (filteredProducts (only_category params) allProducts)
       \<inter> set (filteredProducts (only_search params) allProducts)
       \<inter> set (filteredProducts (only_minPrice params) allProducts)
       \<inter> set (filteredProducts (only_maxPrice params) allProducts)"
    by (subst seq) (use sub in auto)
  with seq show ?thesis by blast
qed

text \<open>
  The theorem at three products and all four parameters: only the second product is in
  all four individual results.
\<close>

theorem C2_filters_compose_to_intersection_witness:
  "filteredProducts
     \<lparr>category_param = Some ''Beauty'', search_param = Some ''mascara'',
      minPrice_param = Some ''10'', maxPrice_param = Some ''20.5''\<rparr>
     [test_product 1 5 0, test_product 2 15 0, test_product 3 30 0]
   = [test_product 2 15 0]
   \<and> set (filteredProducts (only_minPrice
        \<lparr>category_param = Some ''Beauty'', search_param = Some ''mascara'',
         minPrice_param = Some ''10'', maxPrice_param = Some ''20.5''\<rparr>)
        [test_product 1 5 0, test_product 2 15 0, test_product 3 30 0])
      \<inter> set (filteredProducts (only_maxPrice
        \<lparr>category_param = Some ''Beauty'', search_param = Some ''mascara'',
         minPrice_param = Some ''10'', maxPrice_param = Some ''20.5''\<rparr>)
        [test_product 1 5 0, test_product 2 15 0, test_product 3 30 0])
     = {test_product 2 15 0}"
proof -
  let ?params = "\<lparr>category_param = Some ''Beauty'', search_param = Some ''mascara'',
      minPrice_param = Some ''10'', maxPrice_param = Some ''20.5''\<rparr>"
  let ?all = "[test_product 1 5 0, test_product 2 15 0, test_product 3 30 0]"
  have ten: "parseFloat ''10'' = Num 10" and twenty: "parseFloat ''20.5'' = Num (41 / 2)"
    by (simp_all add: parseFloat_def is_space_def unsigned_literal_def is_digit_def scaled_def
        digits_value_def exponent_part_def)
  have cat: "filteredProducts (only_category ?params) ?all = ?all"
    by (simp add: filteredProducts_only filter_category_def string_truthy_def toLowerCase_def
        test_product_def)
  have search: "filteredProducts (only_search ?params) ?all = ?all"
    by (simp add: filteredProducts_only filter_search_def string_truthy_def toLowerCase_def
        test_product_def includes_str_def sublist_code Let_def)
  have minp: "filteredProducts (only_minPrice ?params) ?all
      = [test_product 2 15 0, test_product 3 30 0]"
    by (simp add: filteredProducts_only filter_minPrice_def string_truthy_def ten
        test_product_def number_ge_def)
  have maxp: "filteredProducts (only_maxPrice ?params) ?all
      = [test_product 1 5 0, test_product 2 15 0]"
    by (simp add: filteredProducts_only filter_maxPrice_def string_truthy_def twenty
        test_product_def)
  have ne: "test_product 1 5 0 \<noteq> test_product 2 15 0" "test_product 3 30 0 \<noteq> test_product 2 15 0"
    "test_product 1 5 0 \<noteq> test_product 3 30 0"
    by (simp_all add: test_product_def)
  have "filteredProducts ?params ?all = [test_product 2 15 0]"
    using C2_filters_compose_to_intersection [of ?params ?all] ne
    by (simp add: cat search minp maxp)
  moreover have "set (filteredProducts (only_minPrice ?params) ?all)
      \<inter> set (filteredProducts (only_maxPrice ?params) ?all) = {test_product 2 15 0}"
    using ne by (auto simp: minp maxp)
  ultimately show ?thesis by blast
qed

section \<open>Price filters that do not parse\<close>

lemma number_ge_NaN: "\<not> number_ge x NaN"
  by (cases x) (simp_all add: number_ge_def)

lemma number_le_NaN: "\<not> number_le x NaN"
  by (cases x) simp_all

lemma parseFloat_abc: "parseFloat ''abc'' = NaN"
  by (simp add: parseFloat_def is_space_def unsigned_literal_def is_digit_def)

text \<open>
  A string whose first character after the white space cannot begin a decimal literal
  parses to \<^verbatim>\<open>NaN\<close>.
\<close>

lemma parseFloat_no_literal:
  assumes "dropWhile is_space s = c # r"
    and "\<not> is_digit c" and "c \<notin> {CHR ''+'', CHR ''-'', CHR ''.'', CHR ''I''}"
  shows "parseFloat s = NaN"
proof -
  have "\<not> prefix ''Infinity'' (c # r)"
    using assms(3) by auto
  moreover have "takeWhile is_digit (c # r) = []" "dropWhile is_digit (c # r) = c # r"
    using assms(2) by simp_all
  ultimately have "unsigned_literal (c # r) = NaN"
    using assms(3) by (simp add: unsigned_literal_def)
  then show ?thesis
    using assms by (simp add: parseFloat_def)
qed

text \<open>
  Claim C10, as stated, covers every value that is not a number. \<^verbatim>\<open>parseFloat\<close> reads a
  numeric prefix and ignores the rest, so \<^verbatim>\<open>minPrice=12abc\<close> filters by 12, and the result
  is not empty; an empty value is falsy, and the page ignores it.
\<close>

theorem C10_numeric_prefix_counterexample:
  "parseFloat ''12abc'' = Num 12
   \<and> filteredProducts
       \<lparr>category_param = None, search_param = None,
        minPrice_param = Some ''12abc'', maxPrice_param = None\<rparr>
       [test_product 1 10 0, test_product 2 20 0]
     = [test_product 2 20 0]"
proof -
  have p: "parseFloat ''12abc'' = Num 12"
    by (simp add: parseFloat_def is_space_def unsigned_literal_def is_digit_def scaled_def
        digits_value_def exponent_part_def)
  then show ?thesis
    by (simp add: filteredProducts_def filter_category_def filter_search_def
        filter_minPrice_def filter_maxPrice_def string_truthy_def test_product_def
        number_ge_def)
qed

lemma empty_price_is_ignored:
  "filteredProducts
     \<lparr>category_param = None, search_param = None,
      minPrice_param = Some '''', maxPrice_param = Some ''''\<rparr> allProducts
   = allProducts"
  by (simp add: filteredProducts_def filter_category_def filter_search_def
      filter_minPrice_def filter_maxPrice_def string_truthy_def)

text \<open>
  Claim C10, amended: for every \<^verbatim>\<open>minPrice\<close> or \<^verbatim>\<open>maxPrice\<close> value that is not empty and
  from which \<^verbatim>\<open>parseFloat\<close> reads no number (the result is \<^verbatim>\<open>NaN\<close>), every comparison of a
  price with it is false and the page finds no product, whatever the other parameters
  and the fetched list are.
\<close>

theorem C10_unparsed_price_gives_empty_result:
  assumes "(minPrice_param params = Some s \<or> maxPrice_param params = Some s)
           \<and> string_truthy s \<and> parseFloat s = NaN"
  shows "(\<forall>x. \<not> number_ge x (parseFloat s) \<and> \<not> number_le x (parseFloat s))
       \<and> filteredProducts params allProducts = []
       \<and> (\<exists>cats. fst (ProductsPage fetch_products fetch_categories params con)
                   = Inr (Rendered \<lparr>categories = cats, found = []\<rparr>))"
proof -
  have cmp: "\<forall>x. \<not> number_ge x (parseFloat s) \<and> \<not> number_le x (parseFloat s)"
    using assms by (simp add: number_ge_NaN number_le_NaN)
  have empty: "filteredProducts params xs = []" for xs
  proof -
    from assms consider "minPrice_param params = Some s" | "maxPrice_param params = Some s"
      by blast
    then show ?thesis
    proof cases
      case 1
      then have "filter_minPrice (minPrice_param params) ys = []" for ys
        using assms by (simp add: filter_minPrice_def number_ge_NaN)
      moreover have "filter_maxPrice m [] = []" for m
        by (simp add: filter_maxPrice_def split: option.splits)
      ultimately show ?thesis
        by (simp add: filteredProducts_def)
    next
      case 2
      then show ?thesis
        using assms by (simp add: filteredProducts_def filter_maxPrice_def number_le_NaN)
    qed
  qed
  obtain ps con1 where ps: "getAllProducts fetch_products con = (Inr ps, con1)"
    using getAllProducts_returns [of fetch_products con]
    by (cases "getAllProducts fetch_products con") auto
  obtain cs con2 where cs: "getCategories fetch_categories con1 = (Inr cs, con2)"
    using getCategories_returns [of fetch_categories con1]
    by (cases "getCategories fetch_categories con1") auto
  have "fst (ProductsPage fetch_products fetch_categories params con)
          = Inr (Rendered \<lparr>categories = cs, found = []\<rparr>)"
    using ps cs empty [of ps] by (simp add: ProductsPage_def)
  with cmp empty show ?thesis by blast
qed

text \<open>The theorem at \<^verbatim>\<open>maxPrice=abc\<close>, with two products fetched.\<close>

theorem C10_unparsed_price_gives_empty_result_witness:
  "string_truthy ''abc'' \<and> parseFloat ''abc'' = NaN
   \<and> filteredProducts
       \<lparr>category_param = None, search_param = None,
        minPrice_param = None, maxPrice_param = Some ''abc''\<rparr>
       [test_product 1 10 0, test_product 2 20 0] = []"
proof -
  let ?params = "\<lparr>category_param = None, search_param = None,
        minPrice_param = None, maxPrice_param = Some ''abc''\<rparr>"
  have h: "(minPrice_param ?params = Some ''abc'' \<or> maxPrice_param ?params = Some ''abc'')
           \<and> string_truthy ''abc'' \<and> parseFloat ''abc'' = NaN"
    by (simp add: string_truthy_def parseFloat_abc)
  from C10_unparsed_price_gives_empty_result
         [OF h, of "[test_product 1 10 0, test_product 2 20 0]" "\<lambda>url. Inl NonError"
            "\<lambda>url. Inl NonError" "[]"]
  have "filteredProducts ?params [test_product 1 10 0, test_product 2 20 0] = []"
    by blast
  with h show ?thesis by blast
qed

end
